theory Spec2Isabelle
  imports Complex_Main "HOL-Library.Sublist" "HOL-Library.Word"
begin

section \<open>DLO-138 plotter: the serial reader and the frame decoder of oscilloscope.py\<close>

text \<open>
  The development embeds \<^verbatim>\<open>get_data\<close>, \<^verbatim>\<open>parse_data\<close>, \<^verbatim>\<open>print_info\<close> and the main loop
  of \<^verbatim>\<open>oscilloscope.py\<close>. A Python \<^verbatim>\<open>str\<close> is a \<open>string\<close>, a \<^verbatim>\<open>bytes\<close> object a list of
  8-bit words, an exception a value of \<open>error\<close> on the left of a sum, and a loop that may
  run for ever a function into \<open>option\<close> whose \<open>None\<close> means that it does not return.
\<close>

subsection \<open>Exceptions\<close>

datatype error =
    IndexError
  | ValueError
  | AssertionError
  | UnicodeDecodeError
  | SerialException

subsection \<open>The built-in sequence and string operations that the program uses\<close>

text \<open>\<^verbatim>\<open>xs[i]\<close>: a negative index counts from the end, an index out of range raises.\<close>

definition py_index :: "'a list \<Rightarrow> int \<Rightarrow> error + 'a" where
  "py_index xs i =
     (if 0 \<le> i then (if nat i < length xs then Inr (xs ! nat i) else Inl IndexError)
      else (if nat (- i) \<le> length xs then Inr (xs ! (length xs - nat (- i)))
            else Inl IndexError))"

text \<open>\<^verbatim>\<open>xs[a:-b]\<close> for literal \<open>a\<close> and \<open>b\<close>: a slice never raises.\<close>

definition py_slice_from_to_end :: "'a list \<Rightarrow> nat \<Rightarrow> nat \<Rightarrow> 'a list" where
  "py_slice_from_to_end xs a b = drop a (take (length xs - b) xs)"

text \<open>
  \<^verbatim>\<open>str.isspace\<close> on the characters that ASCII text can hold: tab, line feed, vertical tab,
  form feed, carriage return, the four separators 0x1C to 0x1F, and the space.
\<close>

definition isspace :: "char \<Rightarrow> bool" where
  "isspace c \<longleftrightarrow>
     c = CHR 0x09 \<or> c = CHR 0x0A \<or> c = CHR 0x0B \<or> c = CHR 0x0C \<or> c = CHR 0x0D \<or>
     c = CHR 0x1C \<or> c = CHR 0x1D \<or> c = CHR 0x1E \<or> c = CHR 0x1F \<or> c = CHR 0x20"

text \<open>
  \<^verbatim>\<open>s.split()\<close> without a separator: the maximal runs of characters that are not white
  space; \<open>cur\<close> is the run being read.
\<close>

fun split_ws_from :: "string \<Rightarrow> string \<Rightarrow> string list" where
  "split_ws_from cur [] = (if cur = [] then [] else [cur])"
| "split_ws_from cur (c # cs) =
     (if isspace c then (if cur = [] then [] else [cur]) @ split_ws_from [] cs
      else split_ws_from (cur @ [c]) cs)"

definition split_ws :: "string \<Rightarrow> string list" where
  "split_ws s = split_ws_from [] s"

text \<open>
  \<^verbatim>\<open>s.split(sep)\<close> for a non-empty separator: the pieces between the occurrences of
  \<open>sep\<close>, found from the left without overlap; the result is never empty.
\<close>

fun split_sep :: "'a list \<Rightarrow> 'a list \<Rightarrow> 'a list list" where
  "split_sep sep [] = [[]]"
| "split_sep sep (x # xs) =
     (if prefix sep (x # xs) then [] # split_sep sep (drop (length sep - 1) xs)
      else (case split_sep sep xs of
              [] \<Rightarrow> [[x]]
            | p # ps \<Rightarrow> (x # p) # ps))"

text \<open>\<^verbatim>\<open>s.replace(old, new)\<close> for a non-empty \<open>old\<close>.\<close>

fun replace :: "'a list \<Rightarrow> 'a list \<Rightarrow> 'a list \<Rightarrow> 'a list" where
  "replace old new [] = []"
| "replace old new (x # xs) =
     (if prefix old (x # xs) then new @ replace old new (drop (length old - 1) xs)
      else x # replace old new xs)"

text \<open>\<^verbatim>\<open>s.strip()\<close>: white space removed at both ends.\<close>

definition strip :: "string \<Rightarrow> string" where
  "strip s = rev (dropWhile isspace (rev (dropWhile isspace s)))"

text \<open>A list comprehension whose element expression may raise: the first exception wins.\<close>

fun map_raise :: "('a \<Rightarrow> error + 'b) \<Rightarrow> 'a list \<Rightarrow> error + 'b list" where
  "map_raise f [] = Inr []"
| "map_raise f (x # xs) =
     (case f x of
        Inl e \<Rightarrow> Inl e
      | Inr y \<Rightarrow> (case map_raise f xs of Inl e \<Rightarrow> Inl e | Inr ys \<Rightarrow> Inr (y # ys)))"

subsection \<open>Floating point\<close>

text \<open>
  Python's \<^verbatim>\<open>float\<close> is an IEEE 754 binary64 number. Its arithmetic is not embedded: the
  two operations that \<^verbatim>\<open>parse_data\<close> applies are parameters of the decoder, so every
  theorem holds for whatever \<^verbatim>\<open>float(s)\<close> and \<^verbatim>\<open>x / 1000\<close> compute. \<open>float_of s = None\<close>
  stands for the \<^verbatim>\<open>ValueError\<close> of \<^verbatim>\<open>float(s)\<close>.
\<close>

record 'f float_ops =
  float_of :: "string \<Rightarrow> 'f option"
  div_1000 :: "'f \<Rightarrow> 'f"

definition py_float :: "'f float_ops \<Rightarrow> string \<Rightarrow> error + 'f" where
  "py_float F s = (case float_of F s of None \<Rightarrow> Inl ValueError | Some v \<Rightarrow> Inr v)"

subsection \<open>\<^verbatim>\<open>parse_data\<close>\<close>

text \<open>The dictionary \<^verbatim>\<open>plotdict\<close> has a fixed set of keys: a record, one field per key.\<close>

record 'f plotdict =
  TscaleUnits :: string
  Tscale :: 'f
  coupling :: string
  Vscale :: string
  VscaleUnits :: string
  VoltageStats :: string
  SignalStats :: string
  ch1 :: "'f list"

text \<open>\<^verbatim>\<open>raw_data[2].split()[2][:2]\<close>\<close>

definition tscale_units_of :: "string list \<Rightarrow> error + string" where
  "tscale_units_of raw_data =
     (case py_index raw_data 2 of
        Inl e \<Rightarrow> Inl e
      | Inr line \<Rightarrow>
          (case py_index (split_ws line) 2 of
             Inl e \<Rightarrow> Inl e
           | Inr tok \<Rightarrow> Inr (take 2 tok)))"

text \<open>\<^verbatim>\<open>float(raw_data[3].split()[-1])\<close>\<close>

definition tscale_of :: "'f float_ops \<Rightarrow> string list \<Rightarrow> error + 'f" where
  "tscale_of F raw_data =
     (case py_index raw_data 3 of
        Inl e \<Rightarrow> Inl e
      | Inr line \<Rightarrow>
          (case py_index (split_ws line) (- 1) of
             Inl e \<Rightarrow> Inl e
           | Inr tok \<Rightarrow> py_float F tok))"

text \<open>\<^verbatim>\<open>raw_data[4].split()[2].replace(",", "")\<close>\<close>

definition coupling_of :: "string list \<Rightarrow> error + string" where
  "coupling_of raw_data =
     (case py_index raw_data 4 of
        Inl e \<Rightarrow> Inl e
      | Inr line \<Rightarrow>
          (case py_index (split_ws line) 2 of
             Inl e \<Rightarrow> Inl e
           | Inr tok \<Rightarrow> Inr (replace '','' [] tok)))"

text \<open>\<^verbatim>\<open>raw_data[4].split()[4]\<close>\<close>

definition vscale_of :: "string list \<Rightarrow> error + string" where
  "vscale_of raw_data =
     (case py_index raw_data 4 of
        Inl e \<Rightarrow> Inl e
      | Inr line \<Rightarrow> py_index (split_ws line) 4)"

text \<open>\<^verbatim>\<open>'mV' if plotdict['Vscale'][-6] == 'm' else 'V'\<close>\<close>

definition vscale_units_of :: "string \<Rightarrow> error + string" where
  "vscale_units_of label =
     (case py_index label (- 6) of
        Inl e \<Rightarrow> Inl e
      | Inr c \<Rightarrow> Inr (if c = CHR ''m'' then ''mV'' else ''V''))"

text \<open>\<^verbatim>\<open>raw_data[k].strip().replace(', ','\n')\<close>\<close>

definition stats_of :: "string list \<Rightarrow> int \<Rightarrow> error + string" where
  "stats_of raw_data k =
     (case py_index raw_data k of
        Inl e \<Rightarrow> Inl e
      | Inr line \<Rightarrow> Inr (replace '', '' [CHR 0x0A] (strip line)))"

text \<open>\<^verbatim>\<open>float(i.split('\t')[1])\<close> for one line \<open>i\<close> of the sample block\<close>

definition sample_of :: "'f float_ops \<Rightarrow> string \<Rightarrow> error + 'f" where
  "sample_of F i =
     (case py_index (split_sep [CHR 0x09] i) 1 of
        Inl e \<Rightarrow> Inl e
      | Inr tok \<Rightarrow> py_float F tok)"

text \<open>\<^verbatim>\<open>np.array([float(i.split('\t')[1]) for i in raw_data[12:-2]])\<close>\<close>

definition ch1_of :: "'f float_ops \<Rightarrow> string list \<Rightarrow> error + 'f list" where
  "ch1_of F raw_data = map_raise (sample_of F) (py_slice_from_to_end raw_data 12 2)"

text \<open>
  The body of \<^verbatim>\<open>parse_data\<close>, statement by statement and in the order of the source, so
  that the first statement that raises decides the exception. The \<^verbatim>\<open>assert\<close> is the last
  statement before the \<^verbatim>\<open>return\<close>; the interpreter runs without \<^verbatim>\<open>-O\<close>, so it is checked.
\<close>

definition parse_data :: "'f float_ops \<Rightarrow> string list \<Rightarrow> error + 'f plotdict" where
  "parse_data F raw_data =
     (case tscale_units_of raw_data of Inl e \<Rightarrow> Inl e | Inr units \<Rightarrow>
     (case tscale_of F raw_data of Inl e \<Rightarrow> Inl e | Inr t0 \<Rightarrow>
     (let t = (if units = ''mS'' then div_1000 F t0 else t0) in
     (case coupling_of raw_data of Inl e \<Rightarrow> Inl e | Inr cpl \<Rightarrow>
     (case vscale_of raw_data of Inl e \<Rightarrow> Inl e | Inr label \<Rightarrow>
     (case vscale_units_of label of Inl e \<Rightarrow> Inl e | Inr vunits \<Rightarrow>
     (case stats_of raw_data 8 of Inl e \<Rightarrow> Inl e | Inr vstats \<Rightarrow>
     (case stats_of raw_data 9 of Inl e \<Rightarrow> Inl e | Inr sstats \<Rightarrow>
     (case ch1_of F raw_data of Inl e \<Rightarrow> Inl e | Inr samples \<Rightarrow>
        if length samples = 2048
        then Inr \<lparr>TscaleUnits = units, Tscale = t, coupling = cpl, Vscale = label,
                  VscaleUnits = vunits, VoltageStats = vstats, SignalStats = sstats,
                  ch1 = samples\<rparr>
        else Inl AssertionError)))))))))"

subsection \<open>\<^verbatim>\<open>print_info\<close>\<close>

definition tab :: char where
  "tab = CHR 0x09"

definition newline :: char where
  "newline = CHR 0x0A"

text \<open>
  \<^verbatim>\<open>parts = val.split(":")\<close> followed by the reads \<^verbatim>\<open>parts[0]\<close> and \<^verbatim>\<open>parts[1]\<close> of the
  \<^verbatim>\<open>format\<close> call: the key and the value of one statistics item.
\<close>

definition stat_parts :: "string \<Rightarrow> error + string \<times> string" where
  "stat_parts val =
     (let parts = split_sep '':'' val in
      (case py_index parts 0 of
         Inl e \<Rightarrow> Inl e
       | Inr k \<Rightarrow> (case py_index parts 1 of Inl e \<Rightarrow> Inl e | Inr v \<Rightarrow> Inr (k, v))))"

text \<open>
  One \<^verbatim>\<open>for val in ...: print(...)\<close> loop. \<open>out\<close> is what has been printed so far; an
  exception leaves the lines printed before it.
\<close>

fun print_each ::
  "(string \<Rightarrow> string \<Rightarrow> string) \<Rightarrow> string list \<Rightarrow> string list \<Rightarrow> string list \<times> error option"
where
  "print_each fmt out [] = (out, None)"
| "print_each fmt out (val # vals) =
     (case stat_parts val of
        Inl e \<Rightarrow> (out, Some e)
      | Inr (k, v) \<Rightarrow> print_each fmt (out @ [fmt k v]) vals)"

text \<open>\<^verbatim>\<open>"{}:\t\t{} {}".format(parts[0], parts[1], plotdict["VscaleUnits"])\<close>\<close>

definition voltage_line :: "string \<Rightarrow> string \<Rightarrow> string \<Rightarrow> string" where
  "voltage_line vunits k v = k @ '':'' @ [tab, tab] @ v @ '' '' @ vunits"

text \<open>The two \<^verbatim>\<open>format\<close> calls of the signal statistics, chosen by \<^verbatim>\<open>parts[0] == "Freq"\<close>.\<close>

definition signal_line :: "string \<Rightarrow> string \<Rightarrow> string" where
  "signal_line k v =
     (if k = ''Freq'' then k @ '':'' @ [tab, tab] @ v @ '' Hz''
      else k @ '':'' @ [tab, tab] @ v)"

definition settings_line :: "'f plotdict \<Rightarrow> string" where
  "settings_line d =
     ''Settings: '' @ coupling d @ '' coupling, '' @ [tab] @ ''resolution: '' @ Vscale d @
     '', '' @ [tab] @ ''units: '' @ VscaleUnits d @ '', '' @ TscaleUnits d"

text \<open>
  \<^verbatim>\<open>print_info\<close>: the lines written to the standard output, and the exception that ended
  the call if there was one.
\<close>

definition print_info :: "'f plotdict \<Rightarrow> string list \<times> error option" where
  "print_info d =
     (let out0 = [replicate 60 CHR ''-'', settings_line d] in
      (case print_each (voltage_line (VscaleUnits d)) out0
              (split_sep [newline] (VoltageStats d)) of
         (out1, Some e) \<Rightarrow> (out1, Some e)
       | (out1, None) \<Rightarrow>
           (case print_each signal_line out1 (split_sep [newline] (SignalStats d)) of
              (out2, Some e) \<Rightarrow> (out2, Some e)
            | (out2, None) \<Rightarrow> (out2 @ [replicate 60 CHR ''-''], None))))"

subsection \<open>The serial port and \<^verbatim>\<open>get_data\<close>\<close>

type_synonym byte = "8 word"

text \<open>
  What the program can observe of the serial port. \<open>in_buf\<close> is the driver's input
  buffer, whose length is \<^verbatim>\<open>in_waiting\<close>. \<open>arrivals\<close> is the traffic to come, one entry
  for each \<^verbatim>\<open>sleep(0.1)\<close> of the reader: the bytes that the device delivers during that
  poll interval, \<open>[]\<close> for an idle interval; after the last entry the line stays silent.
  Bytes arrive while the reader sleeps: the time that its other statements take is not
  modelled, so each poll cycle is one step. \<open>openable\<close> tells whether
  \<^verbatim>\<open>serial.Serial(...)\<close> succeeds.
\<close>

record port =
  openable :: bool
  is_open :: bool
  in_buf :: "byte list"
  arrivals :: "byte list list"

text \<open>\<^verbatim>\<open>sleep(0.1)\<close>: one poll interval passes.\<close>

definition sleep :: "port \<Rightarrow> port" where
  "sleep p =
     (case arrivals p of
        [] \<Rightarrow> p
      | b # bs \<Rightarrow> p\<lparr>in_buf := in_buf p @ b, arrivals := bs\<rparr>)"

text \<open>\<^verbatim>\<open>while serial_port.in_waiting == 0: sleep(0.1)\<close>\<close>

partial_function (option) wait_for_data :: "port \<Rightarrow> port option" where
  "wait_for_data p = (if length (in_buf p) = 0 then wait_for_data (sleep p) else Some p)"

text \<open>
  \<^verbatim>\<open>if serial_port.in_waiting > 0: buffer += serial_port.read(serial_port.in_waiting)\<close>
\<close>

definition update_buffer :: "port \<Rightarrow> byte list \<Rightarrow> port \<times> byte list" where
  "update_buffer p buffer =
     (if length (in_buf p) > 0 then (p\<lparr>in_buf := []\<rparr>, buffer @ in_buf p) else (p, buffer))"

text \<open>The \<^verbatim>\<open>while True\<close> loop of the reader, with its local variables as arguments.\<close>

partial_function (option) read_loop ::
  "port \<Rightarrow> byte list \<Rightarrow> nat \<Rightarrow> (port \<times> byte list) option"
where
  "read_loop p buffer prev_buffer_size =
     (case update_buffer p buffer of
        (p', buffer') \<Rightarrow>
          if prev_buffer_size = length buffer' \<and> length buffer' \<noteq> 0 then Some (p', buffer')
          else read_loop (sleep p') buffer' (length buffer'))"

text \<open>\<^verbatim>\<open>str(line, 'ascii')\<close>: strict decoding, a byte above 127 raises.\<close>

definition decode_ascii :: "byte list \<Rightarrow> error + string" where
  "decode_ascii line =
     (if list_all (\<lambda>b. b < 128) line then Inr (map (\<lambda>b. char_of (unat b)) line)
      else Inl UnicodeDecodeError)"

definition CRLF :: "byte list" where
  "CRLF = [13, 10]"

text \<open>
  \<^verbatim>\<open>get_data\<close>: the port as the call leaves it and the list of lines, or the exception.
  \<open>None\<close>: the call does not return. The messages that \<^verbatim>\<open>get_data\<close> prints are left out.
\<close>

definition get_data :: "port \<Rightarrow> (port \<times> (error + string list)) option" where
  "get_data port0 =
     (if \<not> openable port0 then Some (port0, Inl SerialException)
      else
       (let serial_port = port0\<lparr>is_open := True, in_buf := []\<rparr> in
        (case wait_for_data serial_port of
           None \<Rightarrow> None
         | Some p1 \<Rightarrow>
             (case read_loop p1 [] 0 of
                None \<Rightarrow> None
              | Some (p2, buffer) \<Rightarrow>
                  (case map_raise decode_ascii (split_sep CRLF buffer) of
                     Inl e \<Rightarrow> Some (p2, Inl e)
                   | Inr raw_data \<Rightarrow> Some (p2\<lparr>is_open := False\<rparr>, Inr raw_data))))))"

subsection \<open>The main loop\<close>

text \<open>
  \<^verbatim>\<open>while True:\<close> acquire, decode, print, plot. Each call of \<^verbatim>\<open>get_data\<close> opens the port
  anew: \<open>ports n\<close> is the port as the \<open>n\<close>-th call finds it. The plotting block (matplotlib)
  is the parameter \<open>show_plots\<close>, which returns the exception it raised, if any. No
  statement of the loop is inside a \<^verbatim>\<open>try\<close>: an exception leaves the loop and ends the
  process. The result is the output printed by \<^verbatim>\<open>print_info\<close> and that exception;
  \<open>None\<close>: the process runs for ever.
\<close>

partial_function (option) main_loop ::
  "'f float_ops \<Rightarrow> ('f plotdict \<Rightarrow> error option) \<Rightarrow> (nat \<Rightarrow> port) \<Rightarrow> nat \<Rightarrow> string list \<Rightarrow>
     (string list \<times> error) option"
where
  "main_loop F show_plots ports n out =
     (case get_data (ports n) of
        None \<Rightarrow> None
      | Some (p, Inl e) \<Rightarrow> Some (out, e)
      | Some (p, Inr raw_data) \<Rightarrow>
          (case parse_data F raw_data of
             Inl e \<Rightarrow> Some (out, e)
           | Inr plotdict \<Rightarrow>
               (case print_info plotdict of
                  (printed, Some e) \<Rightarrow> Some (out @ printed, e)
                | (printed, None) \<Rightarrow>
                    (case show_plots plotdict of
                       Some e \<Rightarrow> Some (out @ printed, e)
                     | None \<Rightarrow> main_loop F show_plots ports (Suc n) (out @ printed)))))"

subsection \<open>\<^verbatim>\<open>plot_fft\<close>: the duration of the signal\<close>

text \<open>
  The float operations of the first statements of \<^verbatim>\<open>plot_fft\<close>, parameters like those of the
  decoder: \<open>mul_int i x\<close> is \<^verbatim>\<open>i * x\<close> for an integer \<open>i\<close>, and \<open>div_by x n\<close> is the quotient of
  \<open>x\<close> by a divisor of integer value \<open>n\<close>; the divisors are \<^verbatim>\<open>25\<close>, \<^verbatim>\<open>1e3\<close> and \<^verbatim>\<open>1e6\<close>.
\<close>

record 'f plot_ops =
  mul_int :: "int \<Rightarrow> 'f \<Rightarrow> 'f"
  div_by :: "'f \<Rightarrow> nat \<Rightarrow> 'f"

text \<open>\<^verbatim>\<open>time = [i * plotdict['Tscale']/25 for i in range(2048)]\<close>\<close>

definition time_axis :: "'f plot_ops \<Rightarrow> 'f plotdict \<Rightarrow> 'f list" where
  "time_axis A d = map (\<lambda>i. div_by A (mul_int A (int i) (Tscale d)) 25) [0..<2048]"

text \<open>
  The \<^verbatim>\<open>if\<close> chain on \<^verbatim>\<open>plotdict["TscaleUnits"]\<close> that assigns \<^verbatim>\<open>duration\<close>, the length of the
  signal in seconds, from \<^verbatim>\<open>time[-1]\<close>, the last of the 2048 elements of \<^verbatim>\<open>time\<close>. \<open>None\<close>: the
  \<^verbatim>\<open>else\<close> branch, which prints a warning and leaves \<^verbatim>\<open>duration\<close> unassigned.
\<close>

definition fft_duration :: "'f plot_ops \<Rightarrow> 'f plotdict \<Rightarrow> 'f option" where
  "fft_duration A d =
     (if TscaleUnits d = ''uS'' then Some (div_by A (last (time_axis A d)) 1000000)
      else if TscaleUnits d = ''mS'' then Some (div_by A (last (time_axis A d)) 1000)
      else if TscaleUnits d = ''S'' then Some (last (time_axis A d))
      else None)"

subsection \<open>An exact reading of decimal tokens, to run the decoder on examples\<close>

text \<open>
  The examples below need one concrete pair of float operations. \<open>decimal_of\<close> reads a
  plain decimal token (an optional sign, digits, at most one point) as the rational number
  it denotes, and the arithmetic is exact. These operations stand in closed examples only,
  at tokens such as \<open>100\<close>, \<open>2.5\<close> and \<open>0.5\<close>; every theorem about all inputs takes the float
  operations as its parameters \<open>F\<close> and \<open>A\<close>.
\<close>

definition digit_of :: "char \<Rightarrow> nat option" where
  "digit_of c =
     (if (48::nat) \<le> of_char c \<and> of_char c \<le> (57::nat) then Some (of_char c - 48) else None)"

fun digits_value :: "nat \<Rightarrow> string \<Rightarrow> nat option" where
  "digits_value acc [] = Some acc"
| "digits_value acc (c # cs) =
     (case digit_of c of None \<Rightarrow> None | Some d \<Rightarrow> digits_value (10 * acc + d) cs)"

definition unsigned_decimal :: "string \<Rightarrow> rat option" where
  "unsigned_decimal s =
     (let ip = takeWhile (\<lambda>c. c \<noteq> CHR ''.'') s;
          fp = drop 1 (dropWhile (\<lambda>c. c \<noteq> CHR ''.'') s)
      in if ip = [] \<and> fp = [] then None
         else (case (digits_value 0 ip, digits_value 0 fp) of
                 (Some a, Some b) \<Rightarrow> Some (of_nat a + of_nat b / 10 ^ length fp)
               | _ \<Rightarrow> None))"

definition decimal_of :: "string \<Rightarrow> rat option" where
  "decimal_of s =
     (case s of
        [] \<Rightarrow> None
      | c # cs \<Rightarrow>
          if c = CHR ''-'' then map_option uminus (unsigned_decimal cs)
          else if c = CHR ''+'' then unsigned_decimal cs
          else unsigned_decimal s)"

definition exact_ops :: "rat float_ops" where
  "exact_ops = \<lparr>float_of = decimal_of, div_1000 = (\<lambda>x. x / 1000)\<rparr>"

definition exact_plot_ops :: "rat plot_ops" where
  "exact_plot_ops = \<lparr>mul_int = (\<lambda>i x. of_int i * x), div_by = (\<lambda>x n. x / of_nat n)\<rparr>"

text \<open>
  A synthetic transmission in the layout that \<^verbatim>\<open>parse_data\<close> reads: twelve lines before the
  sample block, two after it.
\<close>

definition frame ::
  "string \<Rightarrow> string \<Rightarrow> string \<Rightarrow> string \<Rightarrow> string \<Rightarrow> string list \<Rightarrow> string list" where
  "frame tunit tval label vstats sstats sample_lines =
     [''DLO-138'', [],
      ''Timebase: '' @ tval @ '' '' @ tunit,
      ''Actual Timebase: '' @ tval,
      ''CH1 Coupling: DC, Range: '' @ label,
      [], [], [],
      vstats, sstats,
      [], ''Time'' @ [tab] @ ''CH1'']
     @ sample_lines @ [[], []]"

definition sample_line :: string where
  "sample_line = ''0'' @ [tab] @ ''0.5''"

definition uS_frame :: "nat \<Rightarrow> string list" where
  "uS_frame n =
     frame ''uS/div'' ''100'' ''20mV/div'' ''Vmax:1.0V, Vmin:-1.0V'' ''Freq:1000Hz, Duty:50%''
       (replicate n sample_line)"

definition mS_frame :: "string list" where
  "mS_frame =
     frame ''mS/div'' ''2.5'' ''200mV/div'' ''Vmax:1.2V, Vmin:-1.2V'' ''Freq:1000Hz, Duty:50%''
       (replicate 2048 sample_line)"

text \<open>The same transmission with a first statistics line that has no colon.\<close>

definition no_colon_frame :: "string list" where
  "no_colon_frame =
     frame ''uS/div'' ''100'' ''20mV/div'' ''Vmax'' ''Freq:1000Hz, Duty:50%''
       (replicate 2048 sample_line)"

text \<open>The same transmission with a voltage-scale label of two characters.\<close>

definition short_label_frame :: "string list" where
  "short_label_frame =
     frame ''uS/div'' ''100'' ''5V'' ''Vmax:1.0V, Vmin:-1.0V'' ''Freq:1000Hz, Duty:50%''
       (replicate 2048 sample_line)"

text \<open>The same transmission with a time-scale value that is not a number.\<close>

definition bad_tscale_frame :: "string list" where
  "bad_tscale_frame =
     frame ''uS/div'' ''abc'' ''5V'' ''Vmax:1.0V, Vmin:-1.0V'' ''Freq:1000Hz, Duty:50%''
       (replicate 2048 sample_line)"

text \<open>Two transmissions in seconds: with the unit token \<open>S\<close>, and with the unit token \<open>S/div\<close>.\<close>

definition S_frame :: "string list" where
  "S_frame =
     frame ''S'' ''2'' ''200mV/div'' ''Vmax:1.0V, Vmin:-1.0V'' ''Freq:1000Hz, Duty:50%''
       (replicate 2048 sample_line)"

definition S_div_frame :: "string list" where
  "S_div_frame =
     frame ''S/div'' ''2'' ''200mV/div'' ''Vmax:1.0V, Vmin:-1.0V'' ''Freq:1000Hz, Duty:50%''
       (replicate 2048 sample_line)"

subsection \<open>Notions used to state the properties\<close>

text \<open>
  Every statement of \<^verbatim>\<open>parse_data\<close> before the sample block returns: the two time-scale
  fields, the coupling, the voltage-scale label and its unit, and the two statistics lines.
\<close>

definition fields_decode :: "'f float_ops \<Rightarrow> string list \<Rightarrow> bool" where
  "fields_decode F raw_data \<longleftrightarrow>
     \<not> isl (tscale_units_of raw_data) \<and> \<not> isl (tscale_of F raw_data) \<and>
     \<not> isl (coupling_of raw_data) \<and>
     (case vscale_of raw_data of
        Inl e \<Rightarrow> False
      | Inr label \<Rightarrow> \<not> isl (vscale_units_of label)) \<and>
     \<not> isl (stats_of raw_data 8) \<and> \<not> isl (stats_of raw_data 9)"

text \<open>
  The reading of the specification, for the comparison with \<open>Tscale\<close>: the time per division
  in seconds, when the raw value \<open>v\<close> is a number of the units that the label names.
\<close>

definition spec_seconds :: "string \<Rightarrow> rat \<Rightarrow> rat option" where
  "spec_seconds unit v =
     (if unit = ''uS'' then Some (v / 1000000)
      else if unit = ''mS'' then Some (v / 1000)
      else if unit = ''S'' then Some v
      else None)"

text \<open>\<^verbatim>\<open>sep.join(items)\<close>, to write down the lines that the device sends.\<close>

fun join :: "'a list \<Rightarrow> 'a list list \<Rightarrow> 'a list" where
  "join sep [] = []"
| "join sep [x] = x"
| "join sep (x # y # ys) = x @ sep @ join sep (y # ys)"

text \<open>A statistics line: \<open>key:value\<close> items separated by a comma and a space.\<close>

definition stats_line :: "(string \<times> string) list \<Rightarrow> string" where
  "stats_line pairs = join '', '' (map (\<lambda>(k, v). k @ '':'' @ v) pairs)"

text \<open>A key or a value that holds none of the three separators.\<close>

definition plain :: "string \<Rightarrow> bool" where
  "plain s \<longleftrightarrow> CHR '':'' \<notin> set s \<and> CHR '','' \<notin> set s \<and> newline \<notin> set s"

text \<open>
  The key and value pairs that the two loops of \<^verbatim>\<open>print_info\<close> read from a stored statistics
  block: \<^verbatim>\<open>block.split("\n")\<close>, then \<open>stat_parts\<close> on each item.
\<close>

definition stats_pairs :: "string \<Rightarrow> error + (string \<times> string) list" where
  "stats_pairs block = map_raise stat_parts (split_sep [newline] block)"

text \<open>
  \<^verbatim>\<open>s.encode('ascii')\<close> and the bytes of a transmission: its lines joined by CR LF, as the
  device sends them.
\<close>

definition encode_ascii :: "string \<Rightarrow> byte list" where
  "encode_ascii s = map (\<lambda>c. of_nat (of_char c)) s"

definition transmission :: "string list \<Rightarrow> byte list" where
  "transmission lines = join CRLF (map encode_ascii lines)"

text \<open>A port on which the device sends, in one burst, a transmission with no sample line.\<close>

definition truncated_port :: port where
  "truncated_port =
     \<lparr>openable = True, is_open = False, in_buf = [],
      arrivals = [transmission (uS_frame 0)]\<rparr>"

text \<open>The unfolding equations of the three loops, for the evaluation of examples.\<close>

declare wait_for_data.simps [code] read_loop.simps [code] main_loop.simps [code]

section \<open>Properties\<close>

subsection \<open>Auxiliary facts\<close>

lemma map_raise_length: "map_raise f xs = Inr ys \<Longrightarrow> length ys = length xs"
  by (induction xs arbitrary: ys) (auto split: sum.splits)

lemma map_raise_replicate: "f x = Inr y \<Longrightarrow> map_raise f (replicate n x) = Inr (replicate n y)"
  by (induction n) auto

lemma slice_frame:
  "py_slice_from_to_end (frame tunit tval label vstats sstats ls) 12 2 = ls"
  by (simp add: py_slice_from_to_end_def frame_def)

lemma ch1_of_frame:
  "ch1_of F (frame tunit tval label vstats sstats ls) = map_raise (sample_of F) ls"
  by (simp add: ch1_of_def slice_frame)

lemma sample_of_sample_line: "sample_of exact_ops sample_line = Inr (1 / 2)"
  by (simp add: sample_of_def sample_line_def tab_def py_index_def py_float_def exact_ops_def
      decimal_of_def unsigned_decimal_def digit_of_def)

lemma ch1_of_frame_replicate:
  "ch1_of exact_ops (frame tunit tval label vstats sstats (replicate n sample_line)) =
     Inr (replicate n (1 / 2))"
  by (simp add: ch1_of_frame map_raise_replicate sample_of_sample_line)

lemmas field_defs =
  tscale_units_of_def tscale_of_def coupling_of_def vscale_of_def vscale_units_of_def
  stats_of_def py_index_def split_ws_def isspace_def py_float_def

lemmas exact_defs = exact_ops_def decimal_of_def unsigned_decimal_def digit_of_def

lemma ch1_of_uS_frame: "ch1_of exact_ops (uS_frame n) = Inr (replicate n (1 / 2))"
  by (simp add: uS_frame_def ch1_of_frame_replicate)

lemma fields_decode_uS_frame: "fields_decode exact_ops (uS_frame n)"
  by (simp add: fields_decode_def uS_frame_def frame_def field_defs exact_defs)

lemma tscale_of_uS_frame: "tscale_of exact_ops (uS_frame n) = Inr 100"
  by (simp add: uS_frame_def frame_def field_defs exact_defs)

lemma tscale_of_mS_frame: "tscale_of exact_ops mS_frame = Inr (5 / 2)"
  by (simp add: mS_frame_def frame_def field_defs exact_defs)

lemma parse_uS_frame:
  "parse_data exact_ops (uS_frame 2048) =
     Inr \<lparr>TscaleUnits = ''uS'', Tscale = 100, coupling = ''DC'', Vscale = ''20mV/div'',
          VscaleUnits = ''mV'', VoltageStats = ''Vmax:1.0V'' @ [newline] @ ''Vmin:-1.0V'',
          SignalStats = ''Freq:1000Hz'' @ [newline] @ ''Duty:50%'',
          ch1 = replicate 2048 (1 / 2)\<rparr>"
  unfolding parse_data_def uS_frame_def ch1_of_frame_replicate
  by (simp add: frame_def field_defs exact_defs strip_def newline_def)

lemma parse_mS_frame:
  "parse_data exact_ops mS_frame =
     Inr \<lparr>TscaleUnits = ''mS'', Tscale = 1 / 400, coupling = ''DC'', Vscale = ''200mV/div'',
          VscaleUnits = ''mV'', VoltageStats = ''Vmax:1.2V'' @ [newline] @ ''Vmin:-1.2V'',
          SignalStats = ''Freq:1000Hz'' @ [newline] @ ''Duty:50%'',
          ch1 = replicate 2048 (1 / 2)\<rparr>"
  unfolding parse_data_def mS_frame_def ch1_of_frame_replicate
  by (simp add: frame_def field_defs exact_defs strip_def newline_def)

lemma parse_no_colon_frame:
  "parse_data exact_ops no_colon_frame =
     Inr \<lparr>TscaleUnits = ''uS'', Tscale = 100, coupling = ''DC'', Vscale = ''20mV/div'',
          VscaleUnits = ''mV'', VoltageStats = ''Vmax'',
          SignalStats = ''Freq:1000Hz'' @ [newline] @ ''Duty:50%'',
          ch1 = replicate 2048 (1 / 2)\<rparr>"
  unfolding parse_data_def no_colon_frame_def ch1_of_frame_replicate
  by (simp add: frame_def field_defs exact_defs strip_def newline_def)

lemma split_sep_nonempty: "split_sep sep s \<noteq> []"
  by (induction sep s rule: split_sep.induct) (auto split: list.splits)

lemma split_sep_single_absent: "c \<notin> set s \<Longrightarrow> split_sep [c] s = [s]"
  by (induction s) auto

lemma split_sep_single_append:
  "c \<notin> set s \<Longrightarrow> split_sep [c] (s @ c # rest) = s # split_sep [c] rest"
  by (induction s) auto

lemma replace_absent_append:
  "c \<notin> set s \<Longrightarrow> replace (c # old) new (s @ rest) = s @ replace (c # old) new rest"
  by (induction s) auto

lemma replace_join:
  "\<forall>x \<in> set items. CHR '','' \<notin> set x \<Longrightarrow>
     replace '', '' [newline] (join '', '' items) = join [newline] items"
proof (induction items rule: induct_list012)
  case 1
  then show ?case by simp
next
  case (2 x)
  then show ?case
    using replace_absent_append [of "CHR '',''" x "'' ''" "[newline]" "[]"] by simp
next
  case (3 x y ys)
  then show ?case
    using replace_absent_append
      [of "CHR '',''" x "'' ''" "[newline]" "'', '' @ join '', '' (y # ys)"]
    by simp
qed

lemma split_join:
  "items \<noteq> [] \<Longrightarrow> \<forall>x \<in> set items. c \<notin> set x \<Longrightarrow> split_sep [c] (join [c] items) = items"
proof (induction items rule: induct_list012)
  case 1
  then show ?case by simp
next
  case (2 x)
  then show ?case by (simp add: split_sep_single_absent)
next
  case (3 x y ys)
  then show ?case using split_sep_single_append [of c x "join [c] (y # ys)"] by simp
qed

lemma stat_parts_item:
  "CHR '':'' \<notin> set k \<Longrightarrow> CHR '':'' \<notin> set v \<Longrightarrow> stat_parts (k @ CHR '':'' # v) = Inr (k, v)"
  using split_sep_single_append [of "CHR '':''" k v]
  by (simp add: stat_parts_def py_index_def split_sep_single_absent)

lemma map_raise_items:
  "\<forall>(k, v) \<in> set pairs. CHR '':'' \<notin> set k \<and> CHR '':'' \<notin> set v \<Longrightarrow>
     map_raise stat_parts (map (\<lambda>(k, v). k @ '':'' @ v) pairs) = Inr pairs"
  by (induction pairs) (auto simp: stat_parts_item)

lemma stats_pairs_line:
  assumes "pairs \<noteq> []" and "\<forall>(k, v) \<in> set pairs. plain k \<and> plain v"
  shows "stats_pairs (replace '', '' [newline] (stats_line pairs)) = Inr pairs"
proof -
  let ?items = "map (\<lambda>(k, v). k @ '':'' @ v) pairs"
  have c: "\<forall>x \<in> set ?items. CHR '','' \<notin> set x"
    using assms(2) by (auto simp: plain_def)
  have n: "\<forall>x \<in> set ?items. newline \<notin> set x"
    using assms(2) by (auto simp: plain_def newline_def)
  have ne: "?items \<noteq> []" using assms(1) by simp
  have "split_sep [newline] (replace '', '' [newline] (stats_line pairs)) = ?items"
    unfolding stats_line_def replace_join [OF c] by (rule split_join [OF ne n])
  moreover have "map_raise stat_parts ?items = Inr pairs"
    using assms(2) by (intro map_raise_items) (auto simp: plain_def)
  ultimately show ?thesis by (simp add: stats_pairs_def)
qed

lemma print_each_pairs:
  "map_raise stat_parts vals = Inr pairs \<Longrightarrow>
     print_each fmt out vals = (out @ map (\<lambda>(k, v). fmt k v) pairs, None)"
  by (induction vals arbitrary: out pairs) (auto split: sum.splits)

lemma parse_data_stats:
  "parse_data F raw_data = Inr d \<Longrightarrow>
     8 < length raw_data \<and> 9 < length raw_data \<and>
     VoltageStats d = replace '', '' [newline] (strip (raw_data ! 8)) \<and>
     SignalStats d = replace '', '' [newline] (strip (raw_data ! 9))"
  by (auto simp: parse_data_def Let_def stats_of_def py_index_def newline_def
      split: sum.splits if_splits)

lemma replace_keeps_absent:
  "c \<notin> set s \<Longrightarrow> c \<notin> set new \<Longrightarrow> c \<notin> set (replace old new s)"
  by (induction old new s rule: replace.induct) (auto dest: in_set_dropD)

lemma strip_keeps_absent: "c \<notin> set s \<Longrightarrow> c \<notin> set (strip s)"
  by (auto simp: strip_def dest!: set_dropWhileD)

lemma split_sep_keeps_absent:
  "c \<notin> set s \<Longrightarrow> p \<in> set (split_sep sep s) \<Longrightarrow> c \<notin> set p"
  by (induction sep s arbitrary: p rule: split_sep.induct)
     (auto split: if_splits list.splits dest: in_set_dropD)

lemma stat_parts_no_colon: "CHR '':'' \<notin> set val \<Longrightarrow> stat_parts val = Inl IndexError"
  by (simp add: stat_parts_def split_sep_single_absent py_index_def)

lemma stat_parts_error: "stat_parts val = Inl e \<Longrightarrow> e = IndexError"
  by (auto simp: stat_parts_def py_index_def Let_def split: if_splits)

lemma print_each_error: "print_each fmt out vals = (out', Some e) \<Longrightarrow> e = IndexError"
  by (induction vals arbitrary: out) (auto split: sum.splits dest: stat_parts_error)

lemma print_each_no_colon:
  "vals \<noteq> [] \<Longrightarrow> \<forall>v \<in> set vals. CHR '':'' \<notin> set v \<Longrightarrow>
     print_each fmt out vals = (out, Some IndexError)"
  by (cases vals) (auto simp: stat_parts_no_colon)

lemma print_loop_no_colon:
  assumes "CHR '':'' \<notin> set line"
  shows "print_each fmt out (split_sep [newline] (replace '', '' [newline] (strip line))) =
           (out, Some IndexError)"
proof (rule print_each_no_colon)
  show "split_sep [newline] (replace '', '' [newline] (strip line)) \<noteq> []"
    by (rule split_sep_nonempty)
  have "CHR '':'' \<notin> set (strip line)"
    using assms by (rule strip_keeps_absent)
  moreover have "CHR '':'' \<notin> set [newline]"
    by (simp add: newline_def)
  ultimately have "CHR '':'' \<notin> set (replace '', '' [newline] (strip line))"
    by (rule replace_keeps_absent)
  then show "\<forall>v \<in> set (split_sep [newline] (replace '', '' [newline] (strip line))).
               CHR '':'' \<notin> set v"
    by (auto dest: split_sep_keeps_absent)
qed

lemma print_info_no_colon:
  "CHR '':'' \<notin> set l8 \<or> CHR '':'' \<notin> set l9 \<Longrightarrow>
     VoltageStats d = replace '', '' [newline] (strip l8) \<Longrightarrow>
     SignalStats d = replace '', '' [newline] (strip l9) \<Longrightarrow>
     snd (print_info d) = Some IndexError"
  using print_loop_no_colon [of l8] print_loop_no_colon [of l9]
  by (auto simp: print_info_def Let_def split: prod.splits option.splits dest: print_each_error)

lemma slice_update:
  "py_slice_from_to_end (xs[8 := a, 9 := b]) 12 2 = py_slice_from_to_end xs 12 2"
  by (simp add: py_slice_from_to_end_def take_update_swap drop_update_cancel)

lemma parse_data_update_stats:
  "parse_data F raw_data = Inr d \<Longrightarrow>
     parse_data F (raw_data[8 := l8, 9 := l9]) =
       Inr (d\<lparr>VoltageStats := replace '', '' [newline] (strip l8),
               SignalStats := replace '', '' [newline] (strip l9)\<rparr>)"
  by (auto simp: parse_data_def Let_def tscale_units_of_def tscale_of_def coupling_of_def
      vscale_of_def stats_of_def ch1_of_def slice_update py_index_def newline_def
      split: sum.splits if_splits)

subsection \<open>The sample count\<close>

text \<open>
  C1. When the fields before the sample block decode and every line of the block is a
  well-formed sample, \<^verbatim>\<open>parse_data\<close> returns a record exactly when the decoded sample array
  has 2048 elements, and that record holds the array; with any other count it raises
  \<^verbatim>\<open>AssertionError\<close>, the failure of the sample-count check.
\<close>

theorem sample_count_guard:
  "fields_decode F raw_data \<Longrightarrow> ch1_of F raw_data = Inr samples \<Longrightarrow>
     (case parse_data F raw_data of
        Inr d \<Rightarrow> length samples = 2048 \<and> ch1 d = samples \<and> length (ch1 d) = 2048
      | Inl e \<Rightarrow> length samples \<noteq> 2048 \<and> e = AssertionError)"
  by (auto simp: fields_decode_def parse_data_def Let_def split: sum.splits)

theorem sample_count_guard_witness:
  "length (ch1 (projr (parse_data exact_ops (uS_frame 2048)))) = 2048 \<and>
   \<not> isl (parse_data exact_ops (uS_frame 2048)) \<and>
   parse_data exact_ops (uS_frame 2047) = Inl AssertionError \<and>
   parse_data exact_ops (uS_frame 2049) = Inl AssertionError \<and>
   parse_data exact_ops (uS_frame 0) = Inl AssertionError"
  using
    sample_count_guard [OF fields_decode_uS_frame ch1_of_uS_frame, of 2048]
    sample_count_guard [OF fields_decode_uS_frame ch1_of_uS_frame, of 2047]
    sample_count_guard [OF fields_decode_uS_frame ch1_of_uS_frame, of 2049]
    sample_count_guard [OF fields_decode_uS_frame ch1_of_uS_frame, of 0]
  by (auto split: sum.splits)

subsection \<open>The time scale\<close>

text \<open>
  C2. In every record that \<^verbatim>\<open>parse_data\<close> returns, the unit label is the first two characters
  of the unit token, kept as read. When the label is exactly \<open>mS\<close> the time scale is the raw
  value divided by 1000; with any other label, \<open>uS\<close> among them, it is the raw value
  unchanged.
\<close>

theorem tscale_normalisation:
  "parse_data F raw_data = Inr d \<Longrightarrow> tscale_of F raw_data = Inr v \<Longrightarrow>
     tscale_units_of raw_data = Inr (TscaleUnits d) \<and>
     Tscale d = (if TscaleUnits d = ''mS'' then div_1000 F v else v)"
  by (auto simp: parse_data_def Let_def split: sum.splits if_splits)

theorem tscale_normalisation_witness:
  "Tscale (projr (parse_data exact_ops mS_frame)) = 25 / 10000 \<and>
   TscaleUnits (projr (parse_data exact_ops mS_frame)) = ''mS'' \<and>
   Tscale (projr (parse_data exact_ops (uS_frame 2048))) = 100 \<and>
   TscaleUnits (projr (parse_data exact_ops (uS_frame 2048))) = ''uS''"
  using tscale_normalisation [OF parse_mS_frame tscale_of_mS_frame]
    tscale_normalisation [OF parse_uS_frame tscale_of_uS_frame]
  by (simp add: parse_mS_frame parse_uS_frame)

text \<open>
  C3, as stated, fails: a transmission labelled \<open>uS\<close> with the raw value 100 decodes to the
  time scale 100, while 100 microseconds are 1/10000 of a second.
\<close>

theorem tscale_seconds_counterexample:
  "Tscale (projr (parse_data exact_ops (uS_frame 2048))) = 100 \<and>
   TscaleUnits (projr (parse_data exact_ops (uS_frame 2048))) = ''uS'' \<and>
   spec_seconds ''uS'' 100 = Some (1 / 10000) \<and>
   Some (Tscale (projr (parse_data exact_ops (uS_frame 2048)))) \<noteq> spec_seconds ''uS'' 100"
  by (simp add: parse_uS_frame spec_seconds_def)

lemma tscale_of_S_frame: "tscale_of exact_ops S_frame = Inr 2"
  by (simp add: S_frame_def frame_def field_defs exact_defs)

lemma tscale_of_S_div_frame: "tscale_of exact_ops S_div_frame = Inr 2"
  by (simp add: S_div_frame_def frame_def field_defs exact_defs)

lemma parse_S_frame:
  "parse_data exact_ops S_frame =
     Inr \<lparr>TscaleUnits = ''S'', Tscale = 2, coupling = ''DC'', Vscale = ''200mV/div'',
          VscaleUnits = ''mV'', VoltageStats = ''Vmax:1.0V'' @ [newline] @ ''Vmin:-1.0V'',
          SignalStats = ''Freq:1000Hz'' @ [newline] @ ''Duty:50%'',
          ch1 = replicate 2048 (1 / 2)\<rparr>"
  unfolding parse_data_def S_frame_def ch1_of_frame_replicate
  by (simp add: frame_def field_defs exact_defs strip_def newline_def)

lemma parse_S_div_frame:
  "parse_data exact_ops S_div_frame =
     Inr \<lparr>TscaleUnits = ''S/'', Tscale = 2, coupling = ''DC'', Vscale = ''200mV/div'',
          VscaleUnits = ''mV'', VoltageStats = ''Vmax:1.0V'' @ [newline] @ ''Vmin:-1.0V'',
          SignalStats = ''Freq:1000Hz'' @ [newline] @ ''Duty:50%'',
          ch1 = replicate 2048 (1 / 2)\<rparr>"
  unfolding parse_data_def S_div_frame_def ch1_of_frame_replicate
  by (simp add: frame_def field_defs exact_defs strip_def newline_def)

lemma div_1000_exact_ops: "div_1000 exact_ops x = x / 1000"
  by (simp add: exact_ops_def)

lemma exact_plot_ops_sel:
  "mul_int exact_plot_ops i x = of_int i * x"
  "div_by exact_plot_ops x n = x / of_nat n"
  by (simp_all add: exact_plot_ops_def)

lemma last_time_axis:
  "last (time_axis A d) = div_by A (mul_int A 2047 (Tscale d)) 25"
proof -
  have "[0..<2048] = [0..<2047] @ [2047]"
    using upt_Suc_append [of 0 2047] by simp
  then show ?thesis
    by (simp add: time_axis_def)
qed

text \<open>
  C3, amended. \<^verbatim>\<open>parse_data\<close> does not bring the time scale to seconds, and the time scale is
  not independent of the unit label: it is the raw value divided by 1000 when the label is
  \<open>mS\<close>, and the raw value as read with any other label, \<open>uS\<close> and \<open>S\<close> among them. The
  program makes seconds of it later and by the label: \<^verbatim>\<open>plot_fft\<close> divides the last time
  value, \<open>2047 * Tscale / 25\<close>, by \<open>1e6\<close> when the label is \<open>uS\<close>, by \<open>1e3\<close> when it is \<open>mS\<close>, and
  takes it as it is when the label is \<open>S\<close>; with any other label it assigns no duration.
\<close>

theorem tscale_in_label_units:
  "parse_data F raw_data = Inr d \<Longrightarrow> tscale_of F raw_data = Inr v \<Longrightarrow>
     Tscale d = (if TscaleUnits d = ''mS'' then div_1000 F v else v) \<and>
     fft_duration A d =
       (if TscaleUnits d = ''uS''
        then Some (div_by A (div_by A (mul_int A 2047 v) 25) 1000000)
        else if TscaleUnits d = ''mS''
        then Some (div_by A (div_by A (mul_int A 2047 (div_1000 F v)) 25) 1000)
        else if TscaleUnits d = ''S''
        then Some (div_by A (mul_int A 2047 v) 25)
        else None)"
proof -
  assume p: "parse_data F raw_data = Inr d" and t: "tscale_of F raw_data = Inr v"
  have s: "Tscale d = (if TscaleUnits d = ''mS'' then div_1000 F v else v)"
    using p t by (auto simp: parse_data_def Let_def split: sum.splits if_splits)
  show ?thesis
    using s by (simp add: fft_duration_def last_time_axis)
qed

theorem tscale_in_label_units_witness:
  "TscaleUnits (projr (parse_data exact_ops (uS_frame 2048))) = ''uS'' \<and>
   Tscale (projr (parse_data exact_ops (uS_frame 2048))) = 100 \<and>
   fft_duration exact_plot_ops (projr (parse_data exact_ops (uS_frame 2048))) =
     Some (8188 / 1000000) \<and>
   TscaleUnits (projr (parse_data exact_ops mS_frame)) = ''mS'' \<and>
   Tscale (projr (parse_data exact_ops mS_frame)) = 25 / 10000 \<and>
   fft_duration exact_plot_ops (projr (parse_data exact_ops mS_frame)) =
     Some (2047 / 10000 / 1000) \<and>
   TscaleUnits (projr (parse_data exact_ops S_frame)) = ''S'' \<and>
   Tscale (projr (parse_data exact_ops S_frame)) = 2 \<and>
   fft_duration exact_plot_ops (projr (parse_data exact_ops S_frame)) = Some (4094 / 25) \<and>
   TscaleUnits (projr (parse_data exact_ops S_div_frame)) = ''S/'' \<and>
   Tscale (projr (parse_data exact_ops S_div_frame)) = 2 \<and>
   fft_duration exact_plot_ops (projr (parse_data exact_ops S_div_frame)) = None"
  using
    tscale_in_label_units [OF parse_uS_frame tscale_of_uS_frame, where A = exact_plot_ops]
    tscale_in_label_units [OF parse_mS_frame tscale_of_mS_frame, where A = exact_plot_ops]
    tscale_in_label_units [OF parse_S_frame tscale_of_S_frame, where A = exact_plot_ops]
    tscale_in_label_units [OF parse_S_div_frame tscale_of_S_div_frame, where A = exact_plot_ops]
  by (simp add: parse_uS_frame parse_mS_frame parse_S_frame parse_S_div_frame
      exact_plot_ops_sel div_1000_exact_ops)

subsection \<open>The voltage unit\<close>

text \<open>
  C4. For a label of at least six characters the unit expression yields \<open>mV\<close> when the
  character at offset \<open>-6\<close> is \<open>m\<close> and \<open>V\<close> otherwise. In every record that \<^verbatim>\<open>parse_data\<close>
  returns, the label is token 4 of line 4, it has at least six characters, the unit is the
  one computed from it, and it is \<open>mV\<close> or \<open>V\<close>.
\<close>

theorem voltage_unit_inference:
  "(6 \<le> length label \<longrightarrow>
      vscale_units_of label =
        Inr (if label ! (length label - 6) = CHR ''m'' then ''mV'' else ''V'')) \<and>
   (parse_data F raw_data = Inr d \<longrightarrow>
      vscale_of raw_data = Inr (Vscale d) \<and> 6 \<le> length (Vscale d) \<and>
      vscale_units_of (Vscale d) = Inr (VscaleUnits d) \<and>
      (VscaleUnits d = ''mV'' \<or> VscaleUnits d = ''V''))"
  by (auto simp: parse_data_def Let_def vscale_units_of_def py_index_def
      split: sum.splits if_splits)

theorem voltage_unit_inference_witness:
  "vscale_units_of ''200mV/div'' = Inr ''mV'' \<and>
   vscale_units_of ''20V/div'' = Inr ''V'' \<and>
   Vscale (projr (parse_data exact_ops mS_frame)) = ''200mV/div'' \<and>
   VscaleUnits (projr (parse_data exact_ops mS_frame)) = ''mV''"
  using voltage_unit_inference [of "''200mV/div''" exact_ops mS_frame
      "projr (parse_data exact_ops mS_frame)"]
    voltage_unit_inference [of "''20V/div''" exact_ops mS_frame
      "projr (parse_data exact_ops mS_frame)"]
  by (simp add: parse_mS_frame)

text \<open>
  C10, as stated, fails: in a transmission whose voltage-scale label is \<open>5V\<close> and whose
  time-scale value is \<open>abc\<close>, the conversion of that value raises \<^verbatim>\<open>ValueError\<close> two statements
  before the label is read, and this is the exception that leaves \<^verbatim>\<open>parse_data\<close>.
\<close>

theorem short_label_counterexample:
  "vscale_of bad_tscale_frame = Inr ''5V'' \<and>
   length ''5V'' < 6 \<and>
   parse_data exact_ops bad_tscale_frame = Inl ValueError"
  by (simp add: parse_data_def bad_tscale_frame_def frame_def field_defs exact_defs)

text \<open>
  C10, amended. When token 4 of line 4 has fewer than six characters, the read at offset
  \<open>-6\<close> raises \<^verbatim>\<open>IndexError\<close> and \<^verbatim>\<open>parse_data\<close> returns no record. The exception that leaves
  \<^verbatim>\<open>parse_data\<close> is the one of the first statement that raises: the \<^verbatim>\<open>IndexError\<close> of the unit
  token when line 2 has fewer than three tokens, else the \<^verbatim>\<open>ValueError\<close> of a time-scale
  value that is not a number, else an \<^verbatim>\<open>IndexError\<close>, which is that of the read at offset
  \<open>-6\<close> whenever line 3 has a token.
\<close>

theorem short_label_raises:
  "vscale_of raw_data = Inr label \<Longrightarrow> length label < 6 \<Longrightarrow>
     vscale_units_of label = Inl IndexError \<and>
     isl (parse_data F raw_data) \<and>
     parse_data F raw_data =
       (if tscale_units_of raw_data = Inl IndexError then Inl IndexError
        else if tscale_of F raw_data = Inl ValueError then Inl ValueError
        else Inl IndexError)"
  by (auto simp: parse_data_def Let_def vscale_units_of_def vscale_of_def coupling_of_def
      py_index_def tscale_of_def tscale_units_of_def py_float_def
      split: sum.splits if_splits option.splits)

lemma vscale_of_short_label_frame: "vscale_of short_label_frame = Inr ''5V''"
  by (simp add: short_label_frame_def frame_def field_defs)

lemma tscale_short_label_frame:
  "tscale_units_of short_label_frame = Inr ''uS'' \<and>
   tscale_of exact_ops short_label_frame = Inr 100"
  by (simp add: short_label_frame_def frame_def field_defs exact_defs)

theorem short_label_raises_witness:
  "vscale_of short_label_frame = Inr ''5V'' \<and>
   vscale_units_of ''5V'' = Inl IndexError \<and>
   parse_data exact_ops short_label_frame = Inl IndexError"
  using short_label_raises [OF vscale_of_short_label_frame, of exact_ops]
    tscale_short_label_frame
  by (simp add: vscale_of_short_label_frame)

subsection \<open>The statistics blocks\<close>

text \<open>
  C6. Let a statistics line be made of one or more \<open>key:value\<close> items separated by a comma
  and a space, the keys and the values free of colon, comma and line feed, with no white
  space at either end of the line. When it is line 8 (line 9) of a transmission that
  \<^verbatim>\<open>parse_data\<close> decodes, the pairs that \<^verbatim>\<open>print_info\<close> reads from the stored voltage (signal)
  statistics are exactly the pairs of the line, in the order of the line, and its loop
  prints one line for each, in that order.
\<close>

theorem stats_blocks_ordered:
  assumes "parse_data F raw_data = Inr d"
    and "pairs \<noteq> []" and "\<forall>(k, v) \<in> set pairs. plain k \<and> plain v"
    and "strip (stats_line pairs) = stats_line pairs"
  shows "(raw_data ! 8 = stats_line pairs \<longrightarrow>
            stats_pairs (VoltageStats d) = Inr pairs \<and>
            print_each fmt out (split_sep [newline] (VoltageStats d)) =
              (out @ map (\<lambda>(k, v). fmt k v) pairs, None)) \<and>
         (raw_data ! 9 = stats_line pairs \<longrightarrow>
            stats_pairs (SignalStats d) = Inr pairs \<and>
            print_each fmt out (split_sep [newline] (SignalStats d)) =
              (out @ map (\<lambda>(k, v). fmt k v) pairs, None))"
  using parse_data_stats [OF assms(1)] stats_pairs_line [OF assms(2,3)] assms(4)
    print_each_pairs
      [of "split_sep [newline] (replace '', '' [newline] (stats_line pairs))" pairs fmt out]
  by (auto simp: stats_pairs_def)

theorem stats_blocks_ordered_witness:
  "stats_pairs (VoltageStats (projr (parse_data exact_ops mS_frame))) =
     Inr [(''Vmax'', ''1.2V''), (''Vmin'', ''-1.2V'')] \<and>
   stats_pairs (SignalStats (projr (parse_data exact_ops mS_frame))) =
     Inr [(''Freq'', ''1000Hz''), (''Duty'', ''50%'')]"
proof -
  have v: "[(''Vmax'', ''1.2V''), (''Vmin'', ''-1.2V'')] \<noteq> [] \<and>
      (\<forall>(k, v) \<in> set [(''Vmax'', ''1.2V''), (''Vmin'', ''-1.2V'')]. plain k \<and> plain v) \<and>
      strip (stats_line [(''Vmax'', ''1.2V''), (''Vmin'', ''-1.2V'')]) =
        stats_line [(''Vmax'', ''1.2V''), (''Vmin'', ''-1.2V'')] \<and>
      mS_frame ! 8 = stats_line [(''Vmax'', ''1.2V''), (''Vmin'', ''-1.2V'')]"
    by (simp add: plain_def newline_def stats_line_def strip_def isspace_def frame_def
        mS_frame_def)
  have s: "[(''Freq'', ''1000Hz''), (''Duty'', ''50%'')] \<noteq> [] \<and>
      (\<forall>(k, v) \<in> set [(''Freq'', ''1000Hz''), (''Duty'', ''50%'')]. plain k \<and> plain v) \<and>
      strip (stats_line [(''Freq'', ''1000Hz''), (''Duty'', ''50%'')]) =
        stats_line [(''Freq'', ''1000Hz''), (''Duty'', ''50%'')] \<and>
      mS_frame ! 9 = stats_line [(''Freq'', ''1000Hz''), (''Duty'', ''50%'')]"
    by (simp add: plain_def newline_def stats_line_def strip_def isspace_def frame_def
        mS_frame_def)
  show ?thesis
    using
      stats_blocks_ordered [OF parse_mS_frame, of "[(''Vmax'', ''1.2V''), (''Vmin'', ''-1.2V'')]"]
      stats_blocks_ordered [OF parse_mS_frame, of "[(''Freq'', ''1000Hz''), (''Duty'', ''50%'')]"]
      v s
    by (simp add: parse_mS_frame)
qed

text \<open>
  C9, as stated, fails: a transmission whose first statistics line is \<open>Vmax\<close>, without a
  colon, is decoded by \<^verbatim>\<open>parse_data\<close> into a record, which stores the line as it is.
\<close>

theorem missing_colon_counterexample:
  "\<not> isl (parse_data exact_ops no_colon_frame) \<and>
   no_colon_frame ! 8 = ''Vmax'' \<and>
   VoltageStats (projr (parse_data exact_ops no_colon_frame)) = ''Vmax''"
  by (simp add: parse_no_colon_frame) (simp add: no_colon_frame_def frame_def)

text \<open>
  C9, amended. \<^verbatim>\<open>parse_data\<close> does not look for the colon: when it decodes a transmission, it
  decodes that transmission with any other two statistics lines as well, and stores them.
  When one of the two lines has no colon, the failure comes after the decoder: \<^verbatim>\<open>print_info\<close>
  raises \<^verbatim>\<open>IndexError\<close> on the record.
\<close>

theorem stats_separator_not_checked:
  "parse_data F raw_data = Inr d \<Longrightarrow>
     parse_data F (raw_data[8 := l8, 9 := l9]) =
       Inr (d\<lparr>VoltageStats := replace '', '' [newline] (strip l8),
               SignalStats := replace '', '' [newline] (strip l9)\<rparr>) \<and>
     (CHR '':'' \<notin> set l8 \<or> CHR '':'' \<notin> set l9 \<longrightarrow>
        snd (print_info (d\<lparr>VoltageStats := replace '', '' [newline] (strip l8),
               SignalStats := replace '', '' [newline] (strip l9)\<rparr>)) = Some IndexError)"
  using parse_data_update_stats [of F raw_data d l8 l9]
    print_info_no_colon [of l8 l9 "d\<lparr>VoltageStats := replace '', '' [newline] (strip l8),
               SignalStats := replace '', '' [newline] (strip l9)\<rparr>"]
  by simp

theorem stats_separator_not_checked_witness:
  "\<not> isl (parse_data exact_ops ((uS_frame 2048)[8 := ''Vmax'', 9 := ''Freq:1000Hz''])) \<and>
   snd (print_info (projr
     (parse_data exact_ops ((uS_frame 2048)[8 := ''Vmax'', 9 := ''Freq:1000Hz''])))) =
     Some IndexError"
  using stats_separator_not_checked [OF parse_uS_frame, of "''Vmax''" "''Freq:1000Hz''"]
  by simp

subsection \<open>The acquisition reader\<close>

lemma wait_for_data_idle:
  "in_buf p = [] \<Longrightarrow> arrivals p = replicate k [] @ b # rest \<Longrightarrow> b \<noteq> [] \<Longrightarrow>
     wait_for_data p = Some (p\<lparr>in_buf := b, arrivals := rest\<rparr>)"
proof (induction k arbitrary: p)
  case 0
  then have "sleep p = p\<lparr>in_buf := b, arrivals := rest\<rparr>"
    by (simp add: sleep_def)
  moreover have "wait_for_data (p\<lparr>in_buf := b, arrivals := rest\<rparr>) =
      Some (p\<lparr>in_buf := b, arrivals := rest\<rparr>)"
    using 0 by (subst wait_for_data.simps) simp
  ultimately show ?case
    using 0 by (subst wait_for_data.simps) simp
next
  case (Suc k)
  have s: "sleep p = p\<lparr>arrivals := replicate k [] @ b # rest\<rparr>"
    using Suc.prems by (simp add: sleep_def)
  have "wait_for_data (sleep p) = Some ((sleep p)\<lparr>in_buf := b, arrivals := rest\<rparr>)"
    using Suc.prems by (intro Suc.IH) (simp_all add: s)
  then show ?case
    using Suc.prems by (subst wait_for_data.simps) (simp add: s)
qed

lemma read_loop_idle:
  "in_buf p = [] \<Longrightarrow> buffer \<noteq> [] \<Longrightarrow> prev = length buffer \<Longrightarrow>
     read_loop p buffer prev = Some (p, buffer)"
  by (subst read_loop.simps) (simp add: update_buffer_def)

lemma read_loop_step:
  "in_buf p = b \<Longrightarrow> b \<noteq> [] \<Longrightarrow> prev = length buffer \<Longrightarrow>
     read_loop p buffer prev =
       read_loop (sleep (p\<lparr>in_buf := []\<rparr>)) (buffer @ b) (length (buffer @ b))"
  by (subst read_loop.simps) (simp add: update_buffer_def)

lemma read_loop_bursts:
  "in_buf p = b \<Longrightarrow> b \<noteq> [] \<Longrightarrow> prev = length buffer \<Longrightarrow>
   arrivals p = bursts @ [] # rest \<Longrightarrow> \<forall>x \<in> set bursts. x \<noteq> [] \<Longrightarrow>
     read_loop p buffer prev =
       Some (p\<lparr>in_buf := [], arrivals := rest\<rparr>, buffer @ b @ concat bursts)"
proof (induction bursts arbitrary: p b buffer prev)
  case Nil
  have s: "sleep (p\<lparr>in_buf := []\<rparr>) = p\<lparr>in_buf := [], arrivals := rest\<rparr>"
    using Nil by (simp add: sleep_def)
  show ?case
    using Nil by (simp add: read_loop_step s read_loop_idle)
next
  case (Cons x xs)
  have s: "sleep (p\<lparr>in_buf := []\<rparr>) = p\<lparr>in_buf := x, arrivals := xs @ [] # rest\<rparr>"
    using Cons.prems by (simp add: sleep_def)
  have "read_loop (p\<lparr>in_buf := x, arrivals := xs @ [] # rest\<rparr>) (buffer @ b)
          (length (buffer @ b)) =
        Some (p\<lparr>in_buf := x, arrivals := xs @ [] # rest\<rparr>\<lparr>in_buf := [], arrivals := rest\<rparr>,
              (buffer @ b) @ x @ concat xs)"
    using Cons.prems by (intro Cons.IH) simp_all
  then show ?case
    using Cons.prems by (simp add: read_loop_step s)
qed

lemma get_data_bursts:
  assumes "openable p" and "bursts \<noteq> []" and "\<forall>b \<in> set bursts. b \<noteq> []"
    and "arrivals p = replicate k [] @ bursts @ [] # rest"
  shows "get_data p =
     Some (case map_raise decode_ascii (split_sep CRLF (concat bursts)) of
             Inl e \<Rightarrow> (p\<lparr>is_open := True, in_buf := [], arrivals := rest\<rparr>, Inl e)
           | Inr raw_data \<Rightarrow>
               (p\<lparr>is_open := False, in_buf := [], arrivals := rest\<rparr>, Inr raw_data))"
proof -
  obtain b bs where bursts: "bursts = b # bs"
    using assms(2) by (cases bursts) auto
  let ?p1 = "p\<lparr>is_open := True, in_buf := []\<rparr>"
  have w: "wait_for_data ?p1 = Some (?p1\<lparr>in_buf := b, arrivals := bs @ [] # rest\<rparr>)"
    using assms(3,4) by (intro wait_for_data_idle [where k = k]) (simp_all add: bursts)
  have r: "read_loop (?p1\<lparr>in_buf := b, arrivals := bs @ [] # rest\<rparr>) [] 0 =
      Some (?p1\<lparr>in_buf := b, arrivals := bs @ [] # rest\<rparr>\<lparr>in_buf := [], arrivals := rest\<rparr>,
            [] @ b @ concat bs)"
    using assms(3) by (intro read_loop_bursts) (simp_all add: bursts)
  show ?thesis
    using assms(1) w r by (simp add: get_data_def bursts split: sum.splits)
qed

lemma decode_ascii_error: "decode_ascii line = Inl e \<Longrightarrow> e = UnicodeDecodeError"
  by (simp add: decode_ascii_def split: if_splits)

lemma map_raise_decode_error: "map_raise decode_ascii ls = Inl e \<Longrightarrow> e = UnicodeDecodeError"
  by (induction ls) (auto split: sum.splits dest: decode_ascii_error)

lemma sleep_is_open: "is_open (sleep p) = is_open p"
  by (simp add: sleep_def split: list.splits)

lemma wait_for_data_is_open:
  assumes "wait_for_data p = Some p'"
  shows "is_open p' = is_open p"
proof (rule wait_for_data.raw_induct [where P = "\<lambda>p p'. is_open p' = is_open p", OF _ assms])
  fix f p pa
  assume IH: "\<And>x y. f x = Some y \<Longrightarrow> is_open y = is_open x"
    and step: "(if length (in_buf p) = 0 then f (sleep p) else Some p) = Some pa"
  show "is_open pa = is_open p"
  proof (cases "length (in_buf p) = 0")
    case True
    with step have "f (sleep p) = Some pa" by simp
    then show ?thesis using IH sleep_is_open by simp
  next
    case False
    with step show ?thesis by simp
  qed
qed

lemma read_loop_is_open:
  assumes "read_loop p buffer prev = Some r"
  shows "is_open (fst r) = is_open p"
proof (rule read_loop.raw_induct
    [where P = "\<lambda>p buffer prev r. is_open (fst r) = is_open p", OF _ assms])
  fix f p buffer prev r
  assume IH: "\<And>p buffer prev r. f p buffer prev = Some r \<Longrightarrow> is_open (fst r) = is_open p"
    and step: "(case update_buffer p buffer of
        (p', buffer') \<Rightarrow>
          if prev = length buffer' \<and> length buffer' \<noteq> 0 then Some (p', buffer')
          else f (sleep p') buffer' (length buffer')) = Some r"
  obtain p1 b1 where u: "update_buffer p buffer = (p1, b1)"
    by (cases "update_buffer p buffer")
  have o: "is_open p1 = is_open p"
    using u by (auto simp: update_buffer_def split: if_splits)
  show "is_open (fst r) = is_open p"
  proof (cases "prev = length b1 \<and> length b1 \<noteq> 0")
    case True
    with step u have "r = (p1, b1)" by simp
    then show ?thesis using o by simp
  next
    case False
    with step u have "f (sleep p1) b1 (length b1) = Some r" by auto
    then have "is_open (fst r) = is_open (sleep p1)" by (rule IH)
    then show ?thesis using o sleep_is_open by simp
  qed
qed

text \<open>
  C5, as stated, fails: when the device sends the byte \<open>A\<close>, stays idle for one poll cycle
  and then sends the byte \<open>B\<close>, \<^verbatim>\<open>get_data\<close> returns the first burst alone and leaves the
  second one unread; the concatenation of the two bursts would be the line \<open>AB\<close>.
\<close>

theorem idle_gap_counterexample:
  "get_data \<lparr>openable = True, is_open = False, in_buf = [],
      arrivals = [[0x41], [], [0x42]]\<rparr> =
     Some (\<lparr>openable = True, is_open = False, in_buf = [], arrivals = [[0x42]]\<rparr>, Inr [''A'']) \<and>
   map_raise decode_ascii (split_sep CRLF ([0x41] @ [0x42])) = Inr [''AB'']"
  by code_simp

text \<open>
  C5, amended. Let the device, after any number of idle poll cycles, deliver one or more
  non-empty bursts in consecutive poll cycles, then nothing for one poll cycle. Then
  \<^verbatim>\<open>get_data\<close> completes at that idle cycle, the first cycle that brings no new byte while
  the buffer is non-empty: its buffer is the concatenation of exactly these bursts, and
  what the device sends after the idle cycle is not read. Two bursts are concatenated when
  no idle poll cycle lies between them; when one does, the first burst alone is returned.
\<close>

theorem quiescence_completion:
  assumes "openable p" and "bursts \<noteq> []" and "\<forall>b \<in> set bursts. b \<noteq> []"
    and "arrivals p = replicate k [] @ bursts @ [] # rest"
  shows "get_data p =
     Some (case map_raise decode_ascii (split_sep CRLF (concat bursts)) of
             Inl e \<Rightarrow> (p\<lparr>is_open := True, in_buf := [], arrivals := rest\<rparr>, Inl e)
           | Inr raw_data \<Rightarrow>
               (p\<lparr>is_open := False, in_buf := [], arrivals := rest\<rparr>, Inr raw_data))"
  using assms by (rule get_data_bursts)

theorem quiescence_completion_witness:
  "get_data \<lparr>openable = True, is_open = False, in_buf = [],
      arrivals = [[], [0x41], [0x42], [], [0x43]]\<rparr> =
     Some (\<lparr>openable = True, is_open = False, in_buf = [], arrivals = [[0x43]]\<rparr>, Inr [''AB''])"
proof -
  let ?p = "\<lparr>openable = True, is_open = False, in_buf = [],
      arrivals = [[], [0x41], [0x42], [], [0x43]]\<rparr>"
  have d: "map_raise decode_ascii (split_sep CRLF (concat [[0x41], [0x42]])) = Inr [''AB'']"
    by code_simp
  have h1: "openable ?p" by simp
  have h2: "[[0x41], [0x42 :: byte]] \<noteq> []" by simp
  have h3: "\<forall>b \<in> set [[0x41], [0x42 :: byte]]. b \<noteq> []" by simp
  have h4: "arrivals ?p = replicate 1 [] @ [[0x41], [0x42]] @ [] # [[0x43]]" by simp
  show ?thesis
    unfolding quiescence_completion [OF h1 h2 h3 h4] d by simp
qed

text \<open>
  C7, as stated, fails: when the received bytes hold a byte above 127, \<^verbatim>\<open>get_data\<close> raises
  \<^verbatim>\<open>UnicodeDecodeError\<close> and the port is still open as control leaves the function.
\<close>

theorem channel_left_open_counterexample:
  "get_data \<lparr>openable = True, is_open = False, in_buf = [], arrivals = [[0x41, 0x80, 13, 10]]\<rparr> =
     Some (\<lparr>openable = True, is_open = True, in_buf = [], arrivals = []\<rparr>,
           Inl UnicodeDecodeError) \<and>
   is_open \<lparr>openable = True, is_open = True, in_buf = [], arrivals = []\<rparr>"
  by code_simp

text \<open>
  C7, amended. \<^verbatim>\<open>get_data\<close> closes the port on its normal return path only. When the strict
  ASCII decoding raises, control leaves \<^verbatim>\<open>get_data\<close> with the port open; when the port cannot
  be opened, it is left as it was. These are all the ways in which \<^verbatim>\<open>get_data\<close> returns or
  raises.
\<close>

theorem channel_release:
  "get_data p = Some (p', r) \<Longrightarrow>
     (case r of
        Inr raw_data \<Rightarrow> \<not> is_open p'
      | Inl e \<Rightarrow>
          if e = UnicodeDecodeError then is_open p' else e = SerialException \<and> p' = p)"
proof -
  assume g: "get_data p = Some (p', r)"
  show ?thesis
  proof (cases "openable p")
    case False
    with g show ?thesis by (auto simp: get_data_def)
  next
    case True
    let ?p0 = "p\<lparr>is_open := True, in_buf := []\<rparr>"
    from g True obtain p1 where w: "wait_for_data ?p0 = Some p1"
      by (auto simp: get_data_def split: option.splits)
    from g True w obtain p2 buffer where l: "read_loop p1 [] 0 = Some (p2, buffer)"
      by (auto simp: get_data_def split: option.splits)
    have o: "is_open p2"
      using wait_for_data_is_open [OF w] read_loop_is_open [OF l] by simp
    show ?thesis
    proof (cases "map_raise decode_ascii (split_sep CRLF buffer)")
      case (Inl e)
      with g True w l have "p' = p2" "r = Inl e"
        by (simp_all add: get_data_def)
      then show ?thesis using o map_raise_decode_error [OF Inl] by simp
    next
      case (Inr raw_data)
      with g True w l have "p' = p2\<lparr>is_open := False\<rparr>" "r = Inr raw_data"
        by (simp_all add: get_data_def)
      then show ?thesis by simp
    qed
  qed
qed


theorem channel_release_witness:
  "get_data \<lparr>openable = True, is_open = False, in_buf = [], arrivals = [[0x41, 13, 10]]\<rparr> =
     Some (\<lparr>openable = True, is_open = False, in_buf = [], arrivals = []\<rparr>, Inr [''A'', []]) \<and>
   \<not> is_open \<lparr>openable = True, is_open = False, in_buf = [], arrivals = []\<rparr>"
proof -
  have g: "get_data \<lparr>openable = True, is_open = False, in_buf = [], arrivals = [[0x41, 13, 10]]\<rparr> =
     Some (\<lparr>openable = True, is_open = False, in_buf = [], arrivals = []\<rparr>, Inr [''A'', []])"
    by code_simp
  show ?thesis using channel_release [OF g] g by simp
qed

subsection \<open>The main loop\<close>

lemma get_data_truncated_port:
  "get_data truncated_port =
     Some (\<lparr>openable = True, is_open = False, in_buf = [], arrivals = []\<rparr>, Inr (uS_frame 0))"
  by code_simp

lemma parse_uS_frame_0: "parse_data exact_ops (uS_frame 0) = Inl AssertionError"
  unfolding parse_data_def uS_frame_def ch1_of_frame_replicate
  by (simp add: frame_def field_defs exact_defs strip_def newline_def)

text \<open>
  C8, as stated, fails: when the device sends a transmission with no sample line, the decoder
  raises \<^verbatim>\<open>AssertionError\<close> in the first cycle and the process ends with that exception,
  although the device would send again on every later opening of the port.
\<close>

theorem never_exits_counterexample:
  "main_loop exact_ops (\<lambda>d. None) (\<lambda>n. truncated_port) 0 [] = Some ([], AssertionError)"
  by (subst main_loop.simps) (simp add: get_data_truncated_port parse_uS_frame_0)

text \<open>
  C8, amended. In any cycle of the main loop in which \<^verbatim>\<open>get_data\<close> returns and the decoder
  raises, the exception leaves the loop: the process ends with that exception, and no further
  cycle is run.
\<close>

theorem decode_error_ends_process:
  "get_data (ports n) = Some (p, Inr raw_data) \<Longrightarrow> parse_data F raw_data = Inl e \<Longrightarrow>
     main_loop F show_plots ports n out = Some (out, e)"
  by (subst main_loop.simps) simp

theorem decode_error_ends_process_witness:
  "main_loop exact_ops (\<lambda>d. None)
     (\<lambda>n. \<lparr>openable = True, is_open = False, in_buf = [], arrivals = [[0x41]]\<rparr>) 0 [] =
     Some ([], IndexError)"
proof -
  have g: "get_data \<lparr>openable = True, is_open = False, in_buf = [], arrivals = [[0x41]]\<rparr> =
      Some (\<lparr>openable = True, is_open = False, in_buf = [], arrivals = []\<rparr>, Inr [''A''])"
    by code_simp
  have p: "parse_data exact_ops [''A''] = Inl IndexError"
    by (simp add: parse_data_def tscale_units_of_def py_index_def)
  show ?thesis
    using decode_error_ends_process [of "\<lambda>n. \<lparr>openable = True, is_open = False, in_buf = [],
      arrivals = [[0x41]]\<rparr>" 0, OF g p]
    by simp
qed

end
